theory Spec2Isabelle
  imports Complex_Main "HOL-Library.Word"
begin

section \<open>Images\<close>

text \<open>
  The program (\<^verbatim>\<open>src/main.py\<close>) holds images as numpy arrays of unsigned bytes: shape
  \<open>(h, w)\<close> for a single-channel image (what \<^verbatim>\<open>cv2.Canny\<close> returns) and shape
  \<open>(h, w, 3)\<close> for a colour image in blue, green, red order (what \<^verbatim>\<open>cv2.imread\<close>
  returns). The program tells the two apart by \<^verbatim>\<open>len(image.shape) == 3\<close>.
  A plane is a list of rows; a colour pixel is a triple (blue, green, red).
\<close>

type_synonym uint8 = "8 word"
type_synonym plane = "uint8 list list"
type_synonym pixel = "uint8 \<times> uint8 \<times> uint8"

datatype image = Gray plane | Color "pixel list list"

datatype error = ValueError | Cv2Error | AttributeError | ZeroDivisionError

text \<open>The row lengths and the number of channels: numpy's \<^verbatim>\<open>image.shape\<close>.\<close>

fun shape :: "image \<Rightarrow> nat list \<times> nat" where
  "shape (Gray g) = (map length g, 1)"
| "shape (Color c) = (map length c, 3)"

text \<open>Every channel value of an image, row by row, each pixel's channels in order.\<close>

fun channel_values :: "image \<Rightarrow> uint8 list" where
  "channel_values (Gray g) = concat g"
| "channel_values (Color c) = concat (map (\<lambda>(b, g, r). [b, g, r]) (concat c))"

text \<open>Applying one function to every channel value of every pixel.\<close>

fun map_channels :: "(uint8 \<Rightarrow> uint8) \<Rightarrow> image \<Rightarrow> image" where
  "map_channels f (Gray g) = Gray (map (map f) g)"
| "map_channels f (Color c) = Color (map (map (\<lambda>(b, g, r). (f b, f g, f r))) c)"

section \<open>The library calls whose arithmetic the program relies on\<close>

text \<open>
  \<^verbatim>\<open>cv2.convertScaleAbs(src, alpha, beta)\<close> works in single precision: it converts
  \<open>alpha\<close> and \<open>beta\<close> to \<^verbatim>\<open>float\<close>, computes \<open>src * alpha + beta\<close> on every channel
  value with one fused multiply-add, takes the absolute value, rounds to the nearest
  integer with ties to the even one (\<^verbatim>\<open>cvRound\<close>) and saturates at 255.

  \<open>fl p x\<close> is the real number \<open>x\<close> rounded to the nearest binary floating-point
  number with a significand of \<open>p\<close> bits, ties to even; \<open>float32\<close> has 24 bits. The
  exponent is not bounded: the numbers of this program are far from the ends of the
  single-precision range. A Python \<^verbatim>\<open>float\<close> is taken as the real number it holds.
\<close>

definition cvRound :: "real \<Rightarrow> int" where
  "cvRound x =
     (let f = \<lfloor>x\<rfloor>; d = x - of_int f
      in if d < 1 / 2 then f
         else if 1 / 2 < d then f + 1
         else if even f then f else f + 1)"

definition float_exponent :: "real \<Rightarrow> int" where
  "float_exponent x = \<lfloor>log 2 \<bar>x\<bar>\<rfloor>"

definition fl :: "nat \<Rightarrow> real \<Rightarrow> real" where
  "fl p x =
     (if x = 0 then 0
      else (let u = 2 powr of_int (float_exponent x - int p + 1)
            in of_int (cvRound (x / u)) * u))"

definition float32 :: "real \<Rightarrow> real" where
  "float32 x = fl 24 x"

definition saturate_uchar :: "int \<Rightarrow> uint8" where
  "saturate_uchar v = (if v < 0 then 0 else if 255 < v then 255 else word_of_int v)"

definition scale_abs :: "real \<Rightarrow> real \<Rightarrow> uint8 \<Rightarrow> uint8" where
  "scale_abs alpha beta x =
     saturate_uchar (cvRound \<bar>float32 (of_int (uint x) * float32 alpha + float32 beta)\<bar>)"

definition convertScaleAbs :: "image \<Rightarrow> real \<Rightarrow> real \<Rightarrow> image" where
  "convertScaleAbs img alpha beta = map_channels (scale_abs alpha beta) img"

text \<open>
  The other library calls are taken as they are documented, their numerics left open:
  they are the fields of a record that every operation receives.
  \<^item> \<^verbatim>\<open>cv2.equalizeHist\<close> builds a lookup table from the plane's histogram and maps
    every value through it; the result has the shape of its input.
  \<^item> \<^verbatim>\<open>cv2.cvtColor\<close> converts pixel by pixel; the three conversions used here
    need a three-channel source and raise \<^verbatim>\<open>cv2.error\<close> on a single-channel one.
  \<^item> \<^verbatim>\<open>cv2.Canny\<close> returns a single-channel edge map; \<^verbatim>\<open>cv2.HoughLines\<close> and
    \<^verbatim>\<open>cv2.goodFeaturesToTrack\<close> return \<^verbatim>\<open>None\<close> when they find nothing, and
    otherwise the list of \<open>(rho, theta)\<close> pairs, respectively of corner coordinates.
  \<^item> \<^verbatim>\<open>cv2.line\<close> and \<^verbatim>\<open>cv2.circle\<close> draw on the image they are given.
  \<^item> \<^verbatim>\<open>cv2.imread\<close> returns a three-channel image, or \<^verbatim>\<open>None\<close> when the file
    cannot be read or decoded.
  \<^item> \<^verbatim>\<open>imutils.resize(image, width=500)\<close> scales an image to the display width.
  \<^item> \<^verbatim>\<open>np.cos\<close>, \<^verbatim>\<open>np.sin\<close> and the products, sums and differences of numpy's
    floating-point scalars, in whatever precision numpy's promotion rules give them.
\<close>

record cv2 =
  cv_equalize_lut :: "plane \<Rightarrow> uint8 \<Rightarrow> uint8"
  cv_bgr2hsv :: "pixel \<Rightarrow> pixel"
  cv_hsv2bgr :: "pixel \<Rightarrow> pixel"
  cv_bgr2gray :: "pixel \<Rightarrow> uint8"
  cv_Canny :: "image \<Rightarrow> real \<Rightarrow> real \<Rightarrow> error + plane"
  cv_HoughLines :: "image \<Rightarrow> real \<Rightarrow> real \<Rightarrow> int \<Rightarrow> error + (real \<times> real) list option"
  cv_goodFeaturesToTrack :: "image \<Rightarrow> int \<Rightarrow> real \<Rightarrow> real \<Rightarrow> error + (real \<times> real) list option"
  cv_line :: "image \<Rightarrow> int \<times> int \<Rightarrow> int \<times> int \<Rightarrow> int \<times> int \<times> int \<Rightarrow> int \<Rightarrow> image"
  cv_circle :: "image \<Rightarrow> int \<times> int \<Rightarrow> int \<Rightarrow> int \<times> int \<times> int \<Rightarrow> int \<Rightarrow> image"
  cv_imread :: "string \<Rightarrow> pixel list list option"
  cv_resize :: "image \<Rightarrow> image"
  np_cos :: "real \<Rightarrow> real"
  np_sin :: "real \<Rightarrow> real"
  np_multiply :: "real \<Rightarrow> real \<Rightarrow> real"
  np_add :: "real \<Rightarrow> real \<Rightarrow> real"
  np_subtract :: "real \<Rightarrow> real \<Rightarrow> real"

fun split :: "image \<Rightarrow> plane list" where
  "split (Gray g) = [g]"
| "split (Color c) =
     [map (map (\<lambda>(b, g, r). b)) c, map (map (\<lambda>(b, g, r). g)) c, map (map (\<lambda>(b, g, r). r)) c]"

text \<open>\<^verbatim>\<open>cv2.merge((b, g, r))\<close>: the three planes must have one size.\<close>

definition merge :: "plane \<times> plane \<times> plane \<Rightarrow> error + image" where
  "merge bgr =
     (case bgr of (b, g, r) \<Rightarrow>
        if map length b = map length g \<and> map length g = map length r
        then Inr (Color (map (\<lambda>(rb, rg, rr). zip rb (zip rg rr)) (zip b (zip g r))))
        else Inl Cv2Error)"

definition equalizeHist :: "cv2 \<Rightarrow> plane \<Rightarrow> plane" where
  "equalizeHist cv p = map (map (cv_equalize_lut cv p)) p"

datatype color_code = COLOR_BGR2HSV | COLOR_HSV2BGR | COLOR_BGR2GRAY

fun cvtColor :: "cv2 \<Rightarrow> image \<Rightarrow> color_code \<Rightarrow> error + image" where
  "cvtColor cv (Gray g) code = Inl Cv2Error"
| "cvtColor cv (Color c) COLOR_BGR2HSV = Inr (Color (map (map (cv_bgr2hsv cv)) c))"
| "cvtColor cv (Color c) COLOR_HSV2BGR = Inr (Color (map (map (cv_hsv2bgr cv)) c))"
| "cvtColor cv (Color c) COLOR_BGR2GRAY = Inr (Gray (map (map (cv_bgr2gray cv)) c))"

definition Canny :: "cv2 \<Rightarrow> image \<Rightarrow> real \<Rightarrow> real \<Rightarrow> error + image" where
  "Canny cv img threshold1 threshold2 =
     (case cv_Canny cv img threshold1 threshold2 of Inl e \<Rightarrow> Inl e | Inr edges \<Rightarrow> Inr (Gray edges))"

text \<open>Python's \<^verbatim>\<open>int(x)\<close> on a float: truncation towards zero.\<close>

definition py_int :: "real \<Rightarrow> int" where
  "py_int x = (if 0 \<le> x then \<lfloor>x\<rfloor> else \<lceil>x\<rceil>)"

section \<open>ImageProcessor\<close>

definition linear_contrast :: "image \<Rightarrow> real \<Rightarrow> real \<Rightarrow> image" where
  "linear_contrast img alpha beta = convertScaleAbs img alpha beta"

definition histogram_equalization_rgb :: "cv2 \<Rightarrow> image \<Rightarrow> error + image" where
  "histogram_equalization_rgb cv img =
     (case split img of
        [b, g, r] \<Rightarrow>
          (let b_eq = equalizeHist cv b;
               g_eq = equalizeHist cv g;
               r_eq = equalizeHist cv r
           in merge (b_eq, g_eq, r_eq))
      | _ \<Rightarrow> Inl ValueError)"

definition histogram_equalization_hsv :: "cv2 \<Rightarrow> image \<Rightarrow> error + image" where
  "histogram_equalization_hsv cv img =
     (case cvtColor cv img COLOR_BGR2HSV of
        Inl e \<Rightarrow> Inl e
      | Inr hsv \<Rightarrow>
          (case split hsv of
             [h, s, v] \<Rightarrow>
               (let v_eq = equalizeHist cv v
                in case merge (h, s, v_eq) of
                     Inl e \<Rightarrow> Inl e
                   | Inr hsv_eq \<Rightarrow> cvtColor cv hsv_eq COLOR_HSV2BGR)
           | _ \<Rightarrow> Inl ValueError))"

definition detect_edges :: "cv2 \<Rightarrow> image \<Rightarrow> real \<Rightarrow> real \<Rightarrow> error + image" where
  "detect_edges cv img threshold1 threshold2 = Canny cv img threshold1 threshold2"

text \<open>The body of the loop of \<^verbatim>\<open>detect_lines\<close>: the two end points, then the drawing.\<close>

definition line_endpoints :: "cv2 \<Rightarrow> real \<Rightarrow> real \<Rightarrow> (int \<times> int) \<times> (int \<times> int)" where
  "line_endpoints cv rho theta =
     (let a = np_cos cv theta;
          b = np_sin cv theta;
          x0 = np_multiply cv a rho;
          y0 = np_multiply cv b rho;
          x1 = py_int (np_add cv x0 (np_multiply cv 1000 (- b)));
          y1 = py_int (np_add cv y0 (np_multiply cv 1000 a));
          x2 = py_int (np_subtract cv x0 (np_multiply cv 1000 (- b)));
          y2 = py_int (np_subtract cv y0 (np_multiply cv 1000 a))
      in ((x1, y1), (x2, y2)))"

definition draw_line :: "cv2 \<Rightarrow> image \<Rightarrow> real \<times> real \<Rightarrow> image" where
  "draw_line cv result l =
     (case l of (rho, theta) \<Rightarrow>
        (case line_endpoints cv rho theta of (p1, p2) \<Rightarrow> cv_line cv result p1 p2 (0, 0, 255) 2))"

definition detect_lines :: "cv2 \<Rightarrow> image \<Rightarrow> real \<Rightarrow> real \<Rightarrow> int \<Rightarrow> error + image" where
  "detect_lines cv img rho theta threshold =
     (case Canny cv img 50 150 of
        Inl e \<Rightarrow> Inl e
      | Inr edges \<Rightarrow>
          (case cv_HoughLines cv edges rho theta threshold of
             Inl e \<Rightarrow> Inl e
           | Inr lines \<Rightarrow>
               (let result = img
                in case lines of
                     None \<Rightarrow> Inr result
                   | Some ls \<Rightarrow> Inr (foldl (draw_line cv) result ls))))"

definition draw_corner :: "cv2 \<Rightarrow> image \<Rightarrow> real \<times> real \<Rightarrow> image" where
  "draw_corner cv result corner =
     (case corner of (x, y) \<Rightarrow> cv_circle cv result (py_int x, py_int y) 5 (0, 255, 0) (- 1))"

definition detect_corners :: "cv2 \<Rightarrow> image \<Rightarrow> int \<Rightarrow> real \<Rightarrow> real \<Rightarrow> error + image" where
  "detect_corners cv img max_corners quality_level min_distance =
     (case cvtColor cv img COLOR_BGR2GRAY of
        Inl e \<Rightarrow> Inl e
      | Inr gray \<Rightarrow>
          (case cv_goodFeaturesToTrack cv gray max_corners quality_level min_distance of
             Inl e \<Rightarrow> Inl e
           | Inr corners \<Rightarrow>
               (let result = img
                in case corners of
                     None \<Rightarrow> Inr result
                   | Some cs \<Rightarrow> Inr (foldl (draw_corner cv) result cs))))"

section \<open>HistogramWidget\<close>

text \<open>
  \<^verbatim>\<open>cv2.calcHist([image], [i], None, [256], [0, 256])\<close>: how often each of the 256
  values occurs in a plane. The widget's state is the list of plotted series: three
  for a colour image, one for a single-channel image, none after \<^verbatim>\<open>ax.clear()\<close>.
\<close>

definition calcHist :: "plane \<Rightarrow> nat list" where
  "calcHist p = map (\<lambda>v. length (filter (\<lambda>x. unat x = v) (concat p))) [0..<256]"

definition update_histogram :: "image option \<Rightarrow> error + nat list list" where
  "update_histogram image_opt =
     (case image_opt of
        None \<Rightarrow> Inl AttributeError
      | Some img \<Rightarrow> Inr (map calcHist (split img)))"

section \<open>ImageProcessingApp\<close>

datatype method_name =
    Linear_Contrast
  | RGB_Histogram_Equalization
  | HSV_Histogram_Equalization
  | Edge_Detection
  | Line_Detection
  | Corner_Detection

text \<open>
  The window's attributes: the two image slots, the selected entry of the operation
  combo box, the values of the parameter widgets, and what the two labels and the two
  histogram widgets show. A label holds the pixmap it was last given, or nothing.
\<close>

record app =
  original_image :: "image option"
  processed_image :: "image option"
  method_combo :: method_name
  alpha_slider :: int
  beta_slider :: int
  threshold1 :: int
  threshold2 :: int
  rho_spin :: int
  theta_spin :: int
  threshold_spin :: int
  max_corners :: int
  quality_level :: int
  min_distance :: int
  original_label :: "image option"
  processed_label :: "image option"
  original_histogram :: "nat list list"
  processed_histogram :: "nat list list"

text \<open>
  \<^verbatim>\<open>__init__\<close>: both slots are \<^verbatim>\<open>None\<close>, the combo box shows its first entry and
  \<^verbatim>\<open>update_controls\<close> has built that entry's widgets. The widgets of the other
  methods do not exist yet; they are given the values \<^verbatim>\<open>update_controls\<close> sets
  when it builds them.
\<close>

definition init :: app where
  "init =
     \<lparr>original_image = None, processed_image = None, method_combo = Linear_Contrast,
      alpha_slider = 10, beta_slider = 0, threshold1 = 100, threshold2 = 200,
      rho_spin = 1, theta_spin = 180, threshold_spin = 100,
      max_corners = 25, quality_level = 10, min_distance = 10,
      original_label = None, processed_label = None,
      original_histogram = [], processed_histogram = []\<rparr>"

text \<open>
  \<^verbatim>\<open>update_controls\<close>, run when the combo box changes: the widgets of the selected
  operation are built anew, with their initial values.
\<close>

definition update_controls :: "app \<Rightarrow> app" where
  "update_controls s =
     (case method_combo s of
        Linear_Contrast \<Rightarrow> s\<lparr>alpha_slider := 10, beta_slider := 0\<rparr>
      | Edge_Detection \<Rightarrow> s\<lparr>threshold1 := 100, threshold2 := 200\<rparr>
      | Line_Detection \<Rightarrow> s\<lparr>rho_spin := 1, theta_spin := 180, threshold_spin := 100\<rparr>
      | Corner_Detection \<Rightarrow> s\<lparr>max_corners := 25, quality_level := 10, min_distance := 10\<rparr>
      | _ \<Rightarrow> s)"

text \<open>
  \<^verbatim>\<open>display_image(image, label)\<close>: the pixmap put on the label.
  \<^verbatim>\<open>imutils.resize\<close> reads \<^verbatim>\<open>image.shape\<close>, which raises \<^verbatim>\<open>AttributeError\<close>
  on \<^verbatim>\<open>None\<close>.
\<close>

definition display_image :: "cv2 \<Rightarrow> image option \<Rightarrow> error + image" where
  "display_image cv image_opt =
     (case image_opt of
        None \<Rightarrow> Inl AttributeError
      | Some img \<Rightarrow> Inr (cv_resize cv img))"

text \<open>
  \<^verbatim>\<open>load_image\<close>; \<open>file_name\<close> is what the file dialog returned, the empty string
  when it was cancelled. An exception leaves the attributes as they are at that point:
  the result is the exception, if any, and the state.
\<close>

definition load_image :: "cv2 \<Rightarrow> string \<Rightarrow> app \<Rightarrow> error option \<times> app" where
  "load_image cv file_name s =
     (if file_name \<noteq> [] then
        (let s1 = s\<lparr>original_image := map_option Color (cv_imread cv file_name)\<rparr>
         in case display_image cv (original_image s1) of
              Inl e \<Rightarrow> (Some e, s1)
            | Inr pixmap \<Rightarrow>
                (let s2 = s1\<lparr>original_label := Some pixmap\<rparr>
                 in case update_histogram (original_image s2) of
                      Inl e \<Rightarrow> (Some e, s2)
                    | Inr series \<Rightarrow>
                        (None, s2\<lparr>original_histogram := series,
                                  processed_image := None,
                                  processed_label := None,
                                  processed_histogram := []\<rparr>)))
      else (None, s))"

text \<open>The branch of \<^verbatim>\<open>process_image\<close> for the selected operation.\<close>

definition dispatch :: "cv2 \<Rightarrow> app \<Rightarrow> image \<Rightarrow> error + image" where
  "dispatch cv s img =
     (case method_combo s of
        Linear_Contrast \<Rightarrow>
          (let alpha = of_int (alpha_slider s) / 10;
               beta = of_int (beta_slider s)
           in Inr (linear_contrast img alpha beta))
      | RGB_Histogram_Equalization \<Rightarrow> histogram_equalization_rgb cv img
      | HSV_Histogram_Equalization \<Rightarrow> histogram_equalization_hsv cv img
      | Edge_Detection \<Rightarrow>
          detect_edges cv img (of_int (threshold1 s)) (of_int (threshold2 s))
      | Line_Detection \<Rightarrow>
          (if theta_spin s = 0 then Inl ZeroDivisionError
           else detect_lines cv img (of_int (rho_spin s)) (pi / of_int (theta_spin s))
                  (threshold_spin s))
      | Corner_Detection \<Rightarrow>
          detect_corners cv img (max_corners s) (of_int (quality_level s) / 100)
            (of_int (min_distance s)))"

definition process_image :: "cv2 \<Rightarrow> app \<Rightarrow> error option \<times> app" where
  "process_image cv s =
     (case original_image s of
        None \<Rightarrow> (None, s)
      | Some img \<Rightarrow>
          (case dispatch cv s img of
             Inl e \<Rightarrow> (Some e, s)
           | Inr p \<Rightarrow>
               (let s1 = s\<lparr>processed_image := Some p\<rparr>
                in case processed_image s1 of
                     None \<Rightarrow> (None, s1)
                   | Some q \<Rightarrow>
                       (case display_image cv (Some q) of
                          Inl e \<Rightarrow> (Some e, s1)
                        | Inr pixmap \<Rightarrow>
                            (let s2 = s1\<lparr>processed_label := Some pixmap\<rparr>
                             in case update_histogram (Some q) of
                                  Inl e \<Rightarrow> (Some e, s2)
                                | Inr series \<Rightarrow>
                                    (None, s2\<lparr>processed_histogram := series\<rparr>))))))"

text \<open>
  The parameter widgets and the ranges \<^verbatim>\<open>update_controls\<close> gives them with
  \<^verbatim>\<open>setRange\<close>; a slider or spin box keeps its value inside its range.
\<close>

datatype widget =
    Alpha_Slider | Beta_Slider
  | Threshold1 | Threshold2
  | Rho_Spin | Theta_Spin | Threshold_Spin
  | Max_Corners | Quality_Level | Min_Distance

fun widget_range :: "widget \<Rightarrow> int \<times> int" where
  "widget_range Alpha_Slider = (10, 30)"
| "widget_range Beta_Slider = (- 50, 50)"
| "widget_range Threshold1 = (0, 255)"
| "widget_range Threshold2 = (0, 255)"
| "widget_range Rho_Spin = (1, 10)"
| "widget_range Theta_Spin = (1, 180)"
| "widget_range Threshold_Spin = (0, 200)"
| "widget_range Max_Corners = (1, 100)"
| "widget_range Quality_Level = (1, 100)"
| "widget_range Min_Distance = (1, 100)"

definition bound_value :: "widget \<Rightarrow> int \<Rightarrow> int" where
  "bound_value w v = (case widget_range w of (lo, hi) \<Rightarrow> max lo (min hi v))"

fun set_value :: "widget \<Rightarrow> int \<Rightarrow> app \<Rightarrow> app" where
  "set_value Alpha_Slider v s = s\<lparr>alpha_slider := bound_value Alpha_Slider v\<rparr>"
| "set_value Beta_Slider v s = s\<lparr>beta_slider := bound_value Beta_Slider v\<rparr>"
| "set_value Threshold1 v s = s\<lparr>threshold1 := bound_value Threshold1 v\<rparr>"
| "set_value Threshold2 v s = s\<lparr>threshold2 := bound_value Threshold2 v\<rparr>"
| "set_value Rho_Spin v s = s\<lparr>rho_spin := bound_value Rho_Spin v\<rparr>"
| "set_value Theta_Spin v s = s\<lparr>theta_spin := bound_value Theta_Spin v\<rparr>"
| "set_value Threshold_Spin v s = s\<lparr>threshold_spin := bound_value Threshold_Spin v\<rparr>"
| "set_value Max_Corners v s = s\<lparr>max_corners := bound_value Max_Corners v\<rparr>"
| "set_value Quality_Level v s = s\<lparr>quality_level := bound_value Quality_Level v\<rparr>"
| "set_value Min_Distance v s = s\<lparr>min_distance := bound_value Min_Distance v\<rparr>"

text \<open>
  The user's actions on the window: the load button with the file name the dialog
  returns, a new entry of the combo box (\<^verbatim>\<open>currentIndexChanged\<close> runs
  \<^verbatim>\<open>update_controls\<close> only when the entry changes), a new value of a parameter
  widget, and the process button. A session runs the actions one after the other,
  each on the state the one before left, also when that one raised.
\<close>

datatype action = Load string | Select_Method method_name | Set_Value widget int | Process

fun step :: "cv2 \<Rightarrow> action \<Rightarrow> app \<Rightarrow> error option \<times> app" where
  "step cv (Load file_name) s = load_image cv file_name s"
| "step cv (Select_Method m) s =
     (if m = method_combo s then (None, s)
      else (None, update_controls (s\<lparr>method_combo := m\<rparr>)))"
| "step cv (Set_Value w v) s = (None, set_value w v s)"
| "step cv Process s = process_image cv s"

definition run :: "cv2 \<Rightarrow> action list \<Rightarrow> app \<Rightarrow> app" where
  "run cv as s = foldl (\<lambda>t a. snd (step cv a t)) s as"

section \<open>A library instance for running the operations\<close>

text \<open>
  To run the operations on concrete images the library record needs a value. In
  \<open>cv_quiet\<close> the conversions and the lookup table are identities, the edge map is
  black, the detectors find nothing, drawing leaves the image alone, numpy rounds every
  exact result to single precision, and two files exist: \<^verbatim>\<open>flat.png\<close>, a uniform
  2 by 2 image, and \<^verbatim>\<open>dot.png\<close>, a single pixel.
\<close>

definition flat :: "pixel list list" where
  "flat = [[(7, 7, 7), (7, 7, 7)], [(7, 7, 7), (7, 7, 7)]]"

definition cv_quiet :: cv2 where
  "cv_quiet =
     \<lparr>cv_equalize_lut = (\<lambda>p x. x),
      cv_bgr2hsv = (\<lambda>x. x),
      cv_hsv2bgr = (\<lambda>x. x),
      cv_bgr2gray = (\<lambda>(b, g, r). g),
      cv_Canny = (\<lambda>img t1 t2. Inr (map (map (\<lambda>x. 0)) (hd (split img)))),
      cv_HoughLines = (\<lambda>img rho theta threshold. Inr None),
      cv_goodFeaturesToTrack = (\<lambda>img n q d. Inr None),
      cv_line = (\<lambda>img p1 p2 color thickness. img),
      cv_circle = (\<lambda>img c r color thickness. img),
      cv_imread = (\<lambda>f. if f = ''flat.png'' then Some flat
                         else if f = ''dot.png'' then Some [[(1, 2, 3)]] else None),
      cv_resize = (\<lambda>img. img),
      np_cos = (\<lambda>t. float32 (cos t)),
      np_sin = (\<lambda>t. float32 (sin t)),
      np_multiply = (\<lambda>x y. float32 (x * y)),
      np_add = (\<lambda>x y. float32 (x + y)),
      np_subtract = (\<lambda>x y. float32 (x - y))\<rparr>"

text \<open>
  \<open>cv_sample\<close> holds what \<^verbatim>\<open>cv2\<close> computes on the image \<open>sample\<close>, a dark orange
  pixel beside a white one. In 8-bit HSV (hue in \<open>0..179\<close>) the orange pixel is
  \<open>(15, 170, 30)\<close> and the white one \<open>(0, 0, 255)\<close>; \<^verbatim>\<open>cv2.equalizeHist\<close> maps the
  smallest value present, 30, to 0 and 255 to 255; HSV \<open>(15, 170, 0)\<close> is black in BGR,
  and black is \<open>(0, 0, 0)\<close> in HSV.
\<close>

definition sample :: "pixel list list" where
  "sample = [[(10, 20, 30), (255, 255, 255)]]"

definition cv_sample :: cv2 where
  "cv_sample =
     cv_quiet
       \<lparr>cv_equalize_lut := (\<lambda>p x. if p = [[30, 255]] \<and> x = 30 then 0 else x),
        cv_bgr2hsv := (\<lambda>px. if px = (10, 20, 30) then (15, 170, 30)
                             else if px = (255, 255, 255) then (0, 0, 255)
                             else if px = (0, 0, 0) then (0, 0, 0) else px),
        cv_hsv2bgr := (\<lambda>px. if px = (15, 170, 0) then (0, 0, 0)
                             else if px = (0, 0, 255) then (255, 255, 255) else px)\<rparr>"

section \<open>The notions the specification uses\<close>

text \<open>
  The specification describes linear contrast as
  \<open>clamp(alpha * input + beta, 0, 255)\<close> on every channel.
\<close>

definition clamp :: "real \<Rightarrow> real \<Rightarrow> real \<Rightarrow> real" where
  "clamp x lo hi = max lo (min hi x)"

definition clamp_int :: "int \<Rightarrow> int \<Rightarrow> int \<Rightarrow> int" where
  "clamp_int x lo hi = max lo (min hi x)"






text \<open>
  The hue and saturation of every pixel of a colour image, as \<^verbatim>\<open>cv2.cvtColor\<close>
  gives them, and two images agreeing on them within a tolerance. The HSV pixel that
  \<^verbatim>\<open>histogram_equalization_hsv\<close> converts back: hue and saturation of the converted
  input pixel, the value mapped through the lookup table of the value plane.
\<close>

definition hue_saturation :: "cv2 \<Rightarrow> image \<Rightarrow> (int \<times> int) list" where
  "hue_saturation cv img =
     (case cvtColor cv img COLOR_BGR2HSV of
        Inr (Color c) \<Rightarrow> map (\<lambda>(h, s, v). (uint h, uint s)) (concat c)
      | _ \<Rightarrow> [])"

definition hue_saturation_within :: "cv2 \<Rightarrow> int \<Rightarrow> image \<Rightarrow> image \<Rightarrow> bool" where
  "hue_saturation_within cv tol img out =
     list_all2 (\<lambda>(h, s) (h', s'). \<bar>h - h'\<bar> \<le> tol \<and> \<bar>s - s'\<bar> \<le> tol)
       (hue_saturation cv img) (hue_saturation cv out)"

definition equalized_pixel :: "cv2 \<Rightarrow> pixel list list \<Rightarrow> pixel \<Rightarrow> pixel" where
  "equalized_pixel cv c px =
     (case cv_bgr2hsv cv px of
        (h, s, v) \<Rightarrow>
          (h, s, cv_equalize_lut cv (map (map (\<lambda>q. snd (snd (cv_bgr2hsv cv q)))) c) v))"



section \<open>Properties\<close>

subsection \<open>Rounding\<close>

lemma cvRound_of_int: "cvRound (of_int n) = n"
  by (simp add: cvRound_def)

lemma cvRound_error: "\<bar>of_int (cvRound z) - z\<bar> \<le> 1 / 2"
  unfolding cvRound_def Let_def by (auto simp: abs_if) linarith+

lemma float_exponent_eq:
  assumes "2 powr of_int e \<le> \<bar>x\<bar>" and "\<bar>x\<bar> < 2 powr of_int (e + 1)"
  shows "float_exponent x = e"
proof -
  have "0 < \<bar>x\<bar>" using assms(1) powr_gt_zero [of 2 "of_int e"] by linarith
  then show ?thesis
    unfolding float_exponent_def using assms
    by (subst floor_log_eq_powr_iff) (simp_all add: add.commute)
qed

lemma fl_eq:
  assumes "2 powr of_int e \<le> \<bar>x\<bar>" and "\<bar>x\<bar> < 2 powr of_int (e + 1)"
  shows "fl p x = of_int (cvRound (x / 2 powr of_int (e - int p + 1))) * 2 powr of_int (e - int p + 1)"
proof -
  have "x \<noteq> 0" using assms(1) powr_gt_zero [of 2 "of_int e"] by auto
  then show ?thesis
    by (simp add: fl_def Let_def float_exponent_eq [OF assms])
qed

lemma float_exponent_bounds:
  assumes "x \<noteq> 0"
  shows "2 powr of_int (float_exponent x) \<le> \<bar>x\<bar>"
    and "\<bar>x\<bar> < 2 powr of_int (float_exponent x + 1)"
proof -
  have pos: "0 < \<bar>x\<bar>" using assms by simp
  have "\<lfloor>log 2 \<bar>x\<bar>\<rfloor> = float_exponent x" by (simp add: float_exponent_def)
  then have "2 powr of_int (float_exponent x) \<le> \<bar>x\<bar> \<and> \<bar>x\<bar> < 2 powr (of_int (float_exponent x) + 1)"
    using floor_log_eq_powr_iff [OF pos, of 2 "float_exponent x"] by simp
  then show "2 powr of_int (float_exponent x) \<le> \<bar>x\<bar>"
    and "\<bar>x\<bar> < 2 powr of_int (float_exponent x + 1)"
    by (simp_all add: add.commute)
qed

lemma fl_error: "\<bar>fl p x - x\<bar> \<le> \<bar>x\<bar> / 2 ^ p"
proof (cases "x = 0")
  case True
  then show ?thesis by (simp add: fl_def)
next
  case False
  define e where "e = float_exponent x"
  define u :: real where "u = 2 powr of_int (e - int p + 1)"
  have u: "0 < u" by (simp add: u_def)
  have f: "fl p x = of_int (cvRound (x / u)) * u"
    using False by (simp add: fl_def Let_def u_def e_def)
  have "\<bar>of_int (cvRound (x / u)) - x / u\<bar> \<le> 1 / 2" by (rule cvRound_error)
  then have "\<bar>of_int (cvRound (x / u)) - x / u\<bar> * u \<le> (1 / 2) * u"
    using u by (intro mult_right_mono) simp_all
  moreover have "\<bar>of_int (cvRound (x / u)) - x / u\<bar> * u = \<bar>of_int (cvRound (x / u)) * u - x\<bar>"
  proof -
    have "\<bar>of_int (cvRound (x / u)) - x / u\<bar> * u = \<bar>(of_int (cvRound (x / u)) - x / u) * u\<bar>"
      using u by (simp add: abs_mult)
    also have "(of_int (cvRound (x / u)) - x / u) * u = of_int (cvRound (x / u)) * u - x"
      using u by (simp add: field_simps)
    finally show ?thesis .
  qed
  ultimately have err: "\<bar>fl p x - x\<bar> \<le> u / 2" by (simp add: f)
  have "real_of_int (e - int p + 1) = of_int e + (1 - real p)" by simp
  then have "u = 2 powr of_int e * 2 powr (1 - real p)"
    by (simp only: u_def powr_add)
  also have "2 powr (1 - real p) = 2 / 2 ^ p"
    by (simp add: powr_diff powr_realpow)
  finally have "u / 2 = 2 powr of_int e / 2 ^ p" by simp
  also have "\<dots> \<le> \<bar>x\<bar> / 2 ^ p"
    using float_exponent_bounds(1) [OF False] by (simp add: e_def divide_right_mono)
  finally show ?thesis using err by linarith
qed

lemma fl_of_int:
  assumes "\<bar>n\<bar> < 2 ^ p"
  shows "fl p (of_int n) = of_int n"
proof (cases "n = 0")
  case True
  then show ?thesis by (simp add: fl_def)
next
  case False
  define x where "x = real_of_int n"
  define e where "e = float_exponent x"
  have x0: "x \<noteq> 0" using False by (simp add: x_def)
  have "2 powr of_int e \<le> \<bar>x\<bar>"
    using float_exponent_bounds(1) [OF x0] by (simp add: e_def)
  also have "\<bar>x\<bar> < 2 ^ p" using assms
    by (metis x_def of_int_abs of_int_less_numeral_power_cancel_iff)
  also have "(2::real) ^ p = 2 powr of_int (int p)"
    by (simp add: powr_realpow)
  finally have "e < int p" by simp
  define k where "k = nat (int p - 1 - e)"
  have ek: "e - int p + 1 = - int k" using \<open>e < int p\<close> by (simp add: k_def)
  have "(2::real) powr of_int (- int k) = 1 / 2 ^ k"
    by (simp add: powr_minus powr_realpow inverse_eq_divide)
  then have u: "(2::real) powr of_int (e - int p + 1) = 1 / 2 ^ k"
    by (simp only: ek)
  have "x / (1 / 2 ^ k) = of_int (n * 2 ^ k)"
    by (simp add: x_def)
  then have cv: "cvRound (x / (1 / 2 ^ k)) = n * 2 ^ k"
    by (simp only: cvRound_of_int)
  from x0 have "fl p x =
      of_int (cvRound (x / 2 powr of_int (e - int p + 1))) * 2 powr of_int (e - int p + 1)"
    unfolding fl_def Let_def e_def by (simp only: if_False)
  also have "\<dots> = of_int (cvRound (x / (1 / 2 ^ k))) * (1 / 2 ^ k)"
    by (simp only: u)
  also have "\<dots> = of_int (n * 2 ^ k) * (1 / 2 ^ k)"
    by (simp only: cv)
  also have "\<dots> = of_int n"
    by simp
  finally show ?thesis by (simp only: x_def)
qed

lemma float32_of_int: "\<bar>n\<bar> < 2 ^ 24 \<Longrightarrow> float32 (of_int n) = of_int n"
  unfolding float32_def by (rule fl_of_int)

lemma float32_error: "\<bar>float32 x - x\<bar> \<le> \<bar>x\<bar> / 2 ^ 24"
  unfolding float32_def by (rule fl_error)

lemma uint_saturate_uchar: "uint (saturate_uchar v) = clamp_int v 0 255"
  by (auto simp add: saturate_uchar_def clamp_int_def uint_word_of_int take_bit_int_eq_self)

lemma cvRound_lower: "real_of_int n \<le> x \<Longrightarrow> n \<le> cvRound x"
  unfolding cvRound_def Let_def by (auto simp: le_floor_iff) linarith+

lemma cvRound_upper: "x \<le> real_of_int n \<Longrightarrow> cvRound x \<le> n"
  unfolding cvRound_def Let_def
  by (auto simp: floor_le_iff)

lemma scale_abs_of_int:
  assumes "\<bar>a\<bar> < 2 ^ 24" and "\<bar>b\<bar> < 2 ^ 24" and "\<bar>uint x * a + b\<bar> < 2 ^ 24"
  shows "scale_abs (of_int a) (of_int b) x = saturate_uchar \<bar>uint x * a + b\<bar>"
proof -
  have "real_of_int (uint x) * float32 (of_int a) + float32 (of_int b) = of_int (uint x * a + b)"
    by (simp only: float32_of_int [OF assms(1)] float32_of_int [OF assms(2)] of_int_mult of_int_add)
  then have "float32 (real_of_int (uint x) * float32 (of_int a) + float32 (of_int b))
      = of_int (uint x * a + b)"
    by (simp only: float32_of_int [OF assms(3)])
  then have "\<bar>float32 (real_of_int (uint x) * float32 (of_int a) + float32 (of_int b))\<bar>
      = of_int \<bar>uint x * a + b\<bar>"
    by (simp only: of_int_abs)
  then show ?thesis
    unfolding scale_abs_def by (simp only: cvRound_of_int)
qed

lemma scale_abs_identity: "scale_abs 1 0 x = x"
proof -
  define n where "n = uint x"
  have n: "0 \<le> n" "n \<le> 255"
    using uint_bounded [of x] by (simp_all add: n_def)
  have "scale_abs (of_int 1) (of_int 0) x = saturate_uchar \<bar>uint x * 1 + 0\<bar>"
    by (rule scale_abs_of_int) (use n in \<open>simp_all add: n_def [symmetric]\<close>)
  also have "\<dots> = saturate_uchar n"
    using n by (simp add: n_def)
  also have "\<dots> = x"
    using n by (simp add: saturate_uchar_def n_def)
  finally show ?thesis by simp
qed

lemma float32_eq:
  assumes "2 powr of_int e \<le> \<bar>x\<bar>" and "\<bar>x\<bar> < 2 powr of_int (e + 1)"
  shows "float32 x = of_int (cvRound (x / 2 powr of_int (e - 23))) * 2 powr of_int (e - 23)"
  using fl_eq [OF assms, of 24] by (simp add: float32_def)

subsection \<open>Linear contrast with unit scale and no offset\<close>

lemma map_channels_id: "map_channels (\<lambda>x. x) img = img"
  by (cases img) (simp_all add: case_prod_unfold)

text \<open>
  C3: for every image, the linear contrast operation with \<open>alpha = 1.0\<close> and
  \<open>beta = 0\<close> is the identity: the output equals the input pixel for pixel.
\<close>

theorem linear_contrast_identity: "linear_contrast img 1 0 = img"
proof -
  have "scale_abs 1 0 = (\<lambda>x. x)"
    by (rule ext) (rule scale_abs_identity)
  then show ?thesis
    by (simp add: linear_contrast_def convertScaleAbs_def map_channels_id)
qed


subsection \<open>Processing without a source image\<close>

text \<open>
  C4: whenever the original image slot is empty, \<^verbatim>\<open>process_image\<close> is a no-op for
  every selected operation and every parameter setting: it raises nothing and returns the
  state, the image slots and the display included, as it was.
\<close>

theorem process_image_no_source:
  "original_image s = None \<Longrightarrow> process_image cv s = (None, s)"
  by (simp add: process_image_def)

theorem process_image_no_source_witness:
  "original_image init = None \<and> process_image cv_quiet init = (None, init)"
  using process_image_no_source [of init cv_quiet] by (simp add: init_def)

subsection \<open>Loading a file that does not decode\<close>

lemma process_image_original:
  "original_image (snd (process_image cv s)) = original_image s"
  by (simp add: process_image_def display_image_def update_histogram_def
      split: option.split sum.split)

lemma load_image_imread_None:
  assumes "file_name \<noteq> []" and "cv_imread cv file_name = None"
  shows "load_image cv file_name s = (Some AttributeError, s\<lparr>original_image := None\<rparr>)"
  using assms by (simp add: load_image_def display_image_def)

text \<open>
  C2: a session loads \<^verbatim>\<open>flat.png\<close> and processes it; then the dialog returns a file
  that \<^verbatim>\<open>cv2.imread\<close> cannot decode. \<^verbatim>\<open>load_image\<close> has already stored
  \<^verbatim>\<open>None\<close> in the original slot when \<^verbatim>\<open>display_image\<close> raises
  \<^verbatim>\<open>AttributeError\<close>: the original image that was loaded is lost, the processed
  slot keeps its image.
\<close>

theorem load_image_undecodable:
  "original_image (run cv_quiet [Load ''flat.png'', Process] init) = Some (Color flat)
   \<and> fst (load_image cv_quiet ''corrupt.png'' (run cv_quiet [Load ''flat.png'', Process] init))
       = Some AttributeError
   \<and> original_image
        (snd (load_image cv_quiet ''corrupt.png'' (run cv_quiet [Load ''flat.png'', Process] init)))
       = None
   \<and> processed_image
        (snd (load_image cv_quiet ''corrupt.png'' (run cv_quiet [Load ''flat.png'', Process] init)))
       = processed_image (run cv_quiet [Load ''flat.png'', Process] init)"
proof -
  define prior where "prior = run cv_quiet [Load ''flat.png'', Process] init"
  have loaded: "load_image cv_quiet ''flat.png'' init =
     (None, init\<lparr>original_image := Some (Color flat), original_label := Some (Color flat),
                 original_histogram := map calcHist (split (Color flat))\<rparr>)"
    by (simp add: load_image_def cv_quiet_def display_image_def update_histogram_def init_def)
  have orig: "original_image prior = Some (Color flat)"
    by (simp add: prior_def run_def loaded process_image_original)
  have bad: "cv_imread cv_quiet ''corrupt.png'' = None"
    by (simp add: cv_quiet_def)
  have "load_image cv_quiet ''corrupt.png'' prior =
        (Some AttributeError, prior\<lparr>original_image := None\<rparr>)"
    by (rule load_image_imread_None) (simp_all add: bad)
  with orig show ?thesis
    by (simp add: prior_def)
qed

subsection \<open>Processing again\<close>

lemma dispatch_processed_slot:
  "dispatch cv (s\<lparr>processed_image := x\<rparr>) img = dispatch cv s img"
  "dispatch cv (s\<lparr>processed_label := y\<rparr>) img = dispatch cv s img"
  "dispatch cv (s\<lparr>processed_histogram := z\<rparr>) img = dispatch cv s img"
  by (simp_all add: dispatch_def split: method_name.split)

lemma process_image_twice:
  "process_image cv (snd (process_image cv s)) = process_image cv s"
proof (cases "original_image s")
  case None
  then show ?thesis by (simp add: process_image_def)
next
  case (Some img)
  show ?thesis
  proof (cases "dispatch cv s img")
    case (Inl e)
    with Some show ?thesis by (simp add: process_image_def)
  next
    case (Inr p)
    with Some show ?thesis
      by (simp add: process_image_def display_image_def update_histogram_def
          dispatch_processed_slot)
  qed
qed

lemma run_snoc: "run cv (as @ [a]) s = snd (step cv a (run cv as s))"
  by (simp add: run_def)

lemma run_Process_replicate:
  "run cv (replicate (Suc n) Process) s = snd (process_image cv s)"
proof (induction n)
  case 0
  show ?case by (simp add: run_def)
next
  case (Suc n)
  have "replicate (Suc (Suc n)) Process = replicate (Suc n) Process @ [Process]"
    by (simp add: replicate_append_same)
  then have "run cv (replicate (Suc (Suc n)) Process) s =
        snd (process_image cv (run cv (replicate (Suc n) Process) s))"
    by (simp only: run_snoc step.simps)
  with Suc show ?case by (simp add: process_image_twice)
qed

lemma process_image_stores:
  assumes "original_image s = Some img" and "dispatch cv s img = Inr p"
  shows "processed_image (snd (process_image cv s)) = Some p"
  using assms
  by (simp add: process_image_def display_image_def update_histogram_def)

lemma process_image_reads_original:
  assumes "original_image s = Some img" and "dispatch cv s img = Inr p"
  shows "processed_image (snd (process_image cv (s\<lparr>processed_image := x\<rparr>))) = Some p"
proof -
  have "original_image (s\<lparr>processed_image := x\<rparr>) = Some img"
    using assms(1) by simp
  moreover have "dispatch cv (s\<lparr>processed_image := x\<rparr>) img = Inr p"
    using assms(2) by (simp only: dispatch_processed_slot)
  ultimately show ?thesis by (rule process_image_stores)
qed

text \<open>
  C9: \<^verbatim>\<open>process_image\<close> computes its result from the original slot and the
  parameter widgets, never from the processed slot: whatever the processed slot holds,
  a successful run stores what the selected operation returns on the original image.
  So pressing the process button \<open>n + 1\<close> times in a row leaves the state of pressing
  it once, and a second call returns what the first did.
\<close>

theorem process_image_idempotent:
  "run cv (replicate (Suc n) Process) s = snd (process_image cv s)
   \<and> process_image cv (snd (process_image cv s)) = process_image cv s
   \<and> (original_image s = Some img \<longrightarrow> dispatch cv s img = Inr p \<longrightarrow>
        processed_image (snd (process_image cv (s\<lparr>processed_image := x\<rparr>))) = Some p)"
  using process_image_reads_original [of s img cv p x]
  by (simp only: run_Process_replicate process_image_twice simp_thms) blast

theorem process_image_idempotent_witness:
  "run cv_quiet (replicate (Suc 2) Process) (init\<lparr>original_image := Some (Color flat)\<rparr>) =
     snd (process_image cv_quiet (init\<lparr>original_image := Some (Color flat)\<rparr>))
   \<and> processed_image
        (snd (process_image cv_quiet
           (init\<lparr>original_image := Some (Color flat), processed_image := Some (Gray [])\<rparr>)))
       = Some (linear_contrast (Color flat) 1 0)"
proof -
  let ?s = "init\<lparr>original_image := Some (Color flat)\<rparr>"
  have o: "original_image ?s = Some (Color flat)" by simp
  have d: "dispatch cv_quiet ?s (Color flat) = Inr (linear_contrast (Color flat) 1 0)"
    by (simp add: dispatch_def init_def)
  from process_image_idempotent [of cv_quiet 2 ?s "Color flat" "linear_contrast (Color flat) 1 0"
      "Some (Gray [])"] o d
  show ?thesis by simp
qed

subsection \<open>Channel counts\<close>

lemma merge_same_shape:
  assumes "map length b = map length g" and "map length g = map length r"
  shows "\<exists>c. merge (b, g, r) = Inr (Color c) \<and> map length c = map length b"
proof -
  have len: "length b = length g" "length g = length r"
    using assms by (metis length_map)+
  have "map length (map (\<lambda>(rb, rg, rr). zip rb (zip rg rr)) (zip b (zip g r))) = map length b"
    using assms len
  proof (induction b arbitrary: g r)
    case Nil
    then show ?case by simp
  next
    case (Cons x b)
    then obtain y g' z r' where "g = y # g'" "r = z # r'"
      by (cases g; cases r) auto
    with Cons show ?case by simp
  qed
  with assms show ?thesis by (simp add: merge_def)
qed

lemma equalizeHist_shape: "map length (equalizeHist cv p) = map length p"
  by (simp add: equalizeHist_def)

lemma rgb_on_color:
  "\<exists>out. histogram_equalization_rgb cv (Color c) = Inr (Color out) \<and> map length out = map length c"
proof -
  let ?b = "equalizeHist cv (map (map (\<lambda>(b, g, r). b)) c)"
  let ?g = "equalizeHist cv (map (map (\<lambda>(b, g, r). g)) c)"
  let ?r = "equalizeHist cv (map (map (\<lambda>(b, g, r). r)) c)"
  have "map length ?b = map length ?g" "map length ?g = map length ?r"
    by (simp_all add: equalizeHist_shape)
  from merge_same_shape [OF this]
  obtain out where "merge (?b, ?g, ?r) = Inr (Color out)" "map length out = map length ?b"
    by blast
  then show ?thesis
    by (simp add: histogram_equalization_rgb_def equalizeHist_shape)
qed

lemma hsv_on_color:
  "\<exists>out. histogram_equalization_hsv cv (Color c) = Inr (Color out) \<and> map length out = map length c"
proof -
  let ?hsv = "map (map (cv_bgr2hsv cv)) c"
  let ?h = "map (map (\<lambda>(b, g, r). b)) ?hsv"
  let ?s = "map (map (\<lambda>(b, g, r). g)) ?hsv"
  let ?v = "equalizeHist cv (map (map (\<lambda>(b, g, r). r)) ?hsv)"
  have "map length ?h = map length ?s" "map length ?s = map length ?v"
    by (simp_all add: equalizeHist_shape)
  from merge_same_shape [OF this]
  obtain m where m: "merge (?h, ?s, ?v) = Inr (Color m)" "map length m = map length ?h"
    by blast
  have "histogram_equalization_hsv cv (Color c) = Inr (Color (map (map (cv_hsv2bgr cv)) m))"
    using m(1) by (simp add: histogram_equalization_hsv_def)
  moreover have "map length (map (map (cv_hsv2bgr cv)) m) = map length c"
    using m(2) by (simp add: comp_def)
  ultimately show ?thesis by blast
qed

lemma gray_rejected:
  "histogram_equalization_rgb cv (Gray g) = Inl ValueError"
  "histogram_equalization_hsv cv (Gray g) = Inl Cv2Error"
  "detect_corners cv (Gray g) n q d = Inl Cv2Error"
  by (simp_all add: histogram_equalization_rgb_def histogram_equalization_hsv_def
      detect_corners_def)

lemma detect_corners_color:
  "isl (detect_corners cv (Color c) n q d) =
   isl (cv_goodFeaturesToTrack cv (Gray (map (map (cv_bgr2gray cv)) c)) n q d)"
  by (simp add: detect_corners_def Let_def split: sum.split option.split)

text \<open>
  C10: on a single-channel image RGB histogram equalization, HSV histogram
  equalization and corner detection each raise: unpacking the one plane that
  \<^verbatim>\<open>cv2.split\<close> returns into three names is a \<^verbatim>\<open>ValueError\<close>, and the conversions
  from BGR are a \<^verbatim>\<open>cv2.error\<close>. On a three-channel image both equalizations
  return a three-channel image with the rows of the input, and corner detection raises
  only if \<^verbatim>\<open>cv2.goodFeaturesToTrack\<close> does.
\<close>

theorem three_channel_precondition:
  "histogram_equalization_rgb cv (Gray g) = Inl ValueError
   \<and> histogram_equalization_hsv cv (Gray g) = Inl Cv2Error
   \<and> detect_corners cv (Gray g) n q d = Inl Cv2Error
   \<and> (\<exists>out. histogram_equalization_rgb cv (Color c) = Inr (Color out)
         \<and> map length out = map length c)
   \<and> (\<exists>out. histogram_equalization_hsv cv (Color c) = Inr (Color out)
         \<and> map length out = map length c)
   \<and> isl (detect_corners cv (Color c) n q d) =
       isl (cv_goodFeaturesToTrack cv (Gray (map (map (cv_bgr2gray cv)) c)) n q d)"
  using rgb_on_color [of cv c] hsv_on_color [of cv c]
  by (simp only: gray_rejected detect_corners_color simp_thms)

subsection \<open>Detectors that find nothing\<close>

lemma detect_lines_none:
  assumes "cv_Canny cv img 50 150 = Inr edges"
    and "cv_HoughLines cv (Gray edges) rho theta threshold \<in> {Inr None, Inr (Some [])}"
  shows "detect_lines cv img rho theta threshold = Inr img"
  using assms by (auto simp add: detect_lines_def Canny_def)

lemma detect_corners_none:
  assumes "cvtColor cv img COLOR_BGR2GRAY = Inr gray"
    and "cv_goodFeaturesToTrack cv gray n q d \<in> {Inr None, Inr (Some [])}"
  shows "detect_corners cv img n q d = Inr img"
  using assms by (auto simp add: detect_corners_def)

text \<open>
  C5: when the edge detector has run and \<^verbatim>\<open>cv2.HoughLines\<close> finds no line,
  \<^verbatim>\<open>detect_lines\<close> returns the input image, and no error; when the conversion to
  grey has run and \<^verbatim>\<open>cv2.goodFeaturesToTrack\<close> finds no corner, so does
  \<^verbatim>\<open>detect_corners\<close>. Finding nothing is \<^verbatim>\<open>None\<close>, or an empty array.
\<close>

theorem nothing_detected:
  "(cv_Canny cv img 50 150 = Inr edges \<longrightarrow>
    cv_HoughLines cv (Gray edges) rho theta threshold \<in> {Inr None, Inr (Some [])} \<longrightarrow>
    detect_lines cv img rho theta threshold = Inr img)
   \<and> (cvtColor cv img COLOR_BGR2GRAY = Inr gray \<longrightarrow>
      cv_goodFeaturesToTrack cv gray n q d \<in> {Inr None, Inr (Some [])} \<longrightarrow>
      detect_corners cv img n q d = Inr img)"
  using detect_lines_none [of cv img edges rho theta threshold]
    detect_corners_none [of cv img gray n q d]
  by blast

theorem nothing_detected_witness:
  "detect_lines cv_quiet (Color flat) 1 (pi / 180) 100 = Inr (Color flat)
   \<and> detect_corners cv_quiet (Color flat) 25 (1 / 10) 10 = Inr (Color flat)"
proof -
  have c: "cv_Canny cv_quiet (Color flat) 50 150 = Inr [[0, 0], [0, 0]]"
    by (simp add: cv_quiet_def flat_def)
  have h: "cv_HoughLines cv_quiet (Gray [[0, 0], [0, 0]]) 1 (pi / 180) 100
      \<in> {Inr None, Inr (Some [])}"
    by (simp add: cv_quiet_def)
  have g: "cvtColor cv_quiet (Color flat) COLOR_BGR2GRAY = Inr (Gray [[7, 7], [7, 7]])"
    by (simp add: cv_quiet_def flat_def)
  have f: "cv_goodFeaturesToTrack cv_quiet (Gray [[7, 7], [7, 7]]) 25 (1 / 10) 10
      \<in> {Inr None, Inr (Some [])}"
    by (simp add: cv_quiet_def)
  show ?thesis
    using nothing_detected [of cv_quiet "Color flat" "[[0, 0], [0, 0]]" 1 "pi / 180" 100
        "Gray [[7, 7], [7, 7]]" 25 "1 / 10" 10] c h g f
    by blast
qed


subsection \<open>Linear contrast on every channel value\<close>

lemma scale_abs_mirror: "scale_abs 1 (- 50) 0 = 50"
  using scale_abs_of_int [of 1 "- 50" 0] by (simp add: saturate_uchar_def)

text \<open>
  C1, as stated, fails: \<^verbatim>\<open>cv2.convertScaleAbs\<close> takes the absolute value of
  \<open>alpha * input + beta\<close> where the claim clamps it at 0. At \<open>alpha = 1.0\<close>,
  \<open>beta = -50\<close> a channel value 0 becomes 50, and the clamp is 0.
\<close>

theorem linear_contrast_not_clamp:
  "channel_values (linear_contrast (Gray [[0]]) 1 (- 50)) = [50]
   \<and> map (\<lambda>x. clamp (1 * real_of_int (uint x) + (- 50)) 0 255) (channel_values (Gray [[0]]))
       = [0]
   \<and> map (\<lambda>v. real_of_int (uint v)) (channel_values (linear_contrast (Gray [[0]]) 1 (- 50)))
       \<noteq> map (\<lambda>x. clamp (1 * real_of_int (uint x) + (- 50)) 0 255)
           (channel_values (Gray [[0]]))"
  by (simp add: linear_contrast_def convertScaleAbs_def scale_abs_mirror clamp_def)

text \<open>
  Single precision shows at \<open>alpha = 1.1\<close>, \<open>beta = -50\<close>: the channel values 35, 15
  and 95 become 11, 34 and 55, where exact arithmetic would give the ties 11.5, 33.5
  and 54.5. Ties go to the even number: at \<open>alpha = 1.5\<close>, \<open>beta = 0\<close> the values 1
  and 3 become 2 and 4.
\<close>

lemma float32_tenths: "float32 (11 / 10) = 9227469 / 8388608"
  using float32_eq [of 0 "11 / 10"] by (simp add: powr_minus cvRound_def field_simps)

lemma float32_minus_50: "float32 (- 50) = - 50"
  using float32_of_int [of "- 50"] by simp

lemma scale_abs_35: "scale_abs (11 / 10) (- 50) 35 = 11"
proof -
  have w: "real_of_int (uint (35 :: uint8)) * (9227469 / 8388608) + (- 50) = - 96468985 / 8388608"
    by simp
  have v: "float32 (- 96468985 / 8388608) = - 12058623 / 1048576"
    using float32_eq [of 3 "- 96468985 / 8388608"]
    by (simp add: powr_minus cvRound_def field_simps)
  show ?thesis
    unfolding scale_abs_def float32_tenths float32_minus_50 w v
    by (simp add: cvRound_def saturate_uchar_def)
qed

lemma scale_abs_15: "scale_abs (11 / 10) (- 50) 15 = 34"
proof -
  have w: "real_of_int (uint (15 :: uint8)) * (9227469 / 8388608) + (- 50) = - 281018365 / 8388608"
    by simp
  have v: "float32 (- 281018365 / 8388608) = - 67 / 2"
    using float32_eq [of 5 "- 281018365 / 8388608"]
    by (simp add: powr_minus cvRound_def field_simps)
  show ?thesis
    unfolding scale_abs_def float32_tenths float32_minus_50 w v
    by (simp add: cvRound_def saturate_uchar_def)
qed

lemma scale_abs_95: "scale_abs (11 / 10) (- 50) 95 = 55"
proof -
  have w: "real_of_int (uint (95 :: uint8)) * (9227469 / 8388608) + (- 50) = 457179155 / 8388608"
    by simp
  have v: "float32 (457179155 / 8388608) = 14286849 / 262144"
    using float32_eq [of 5 "457179155 / 8388608"]
    by (simp add: powr_minus cvRound_def field_simps)
  show ?thesis
    unfolding scale_abs_def float32_tenths float32_minus_50 w v
    by (simp add: cvRound_def saturate_uchar_def)
qed

lemma linear_contrast_single_precision:
  "linear_contrast (Gray [[35, 15, 95]]) (11 / 10) (- 50) = Gray [[11, 34, 55]]"
  by (simp add: linear_contrast_def convertScaleAbs_def scale_abs_35 scale_abs_15 scale_abs_95)

lemma float32_halves: "float32 (3 / 2) = 3 / 2" "float32 (9 / 2) = 9 / 2" "float32 0 = 0"
  using float32_eq [of 0 "3 / 2"] float32_eq [of 2 "9 / 2"] float32_of_int [of 0]
  by (simp_all add: powr_minus cvRound_def field_simps)

lemma linear_contrast_ties:
  "linear_contrast (Gray [[1, 3]]) (3 / 2) 0 = Gray [[2, 4]]"
  by (simp add: linear_contrast_def convertScaleAbs_def scale_abs_def float32_halves
      cvRound_def saturate_uchar_def)

lemma channel_values_map_channels:
  "channel_values (map_channels f img) = map f (channel_values img)"
proof (cases img)
  case (Gray g)
  then show ?thesis by (simp add: map_concat)
next
  case (Color c)
  let ?F = "\<lambda>(b, g, r). (f b, f g, f r)"
  let ?px = "\<lambda>(b, g, r). [b, g, r]"
  have row: "concat (map ?px (map ?F row)) = map f (concat (map ?px row))" for row
    by (induction row) auto
  have "concat (map (map ?F) c) = map ?F (concat c)"
    by (simp add: map_concat)
  then have "channel_values (map_channels f (Color c)) = concat (map ?px (map ?F (concat c)))"
    by (simp only: map_channels.simps channel_values.simps)
  also have "\<dots> = map f (channel_values (Color c))"
    by (simp only: row channel_values.simps)
  finally show ?thesis using Color by simp
qed

lemma shape_map_channels: "shape (map_channels f img) = shape img"
  by (cases img) (simp_all add: comp_def)

lemma list_all2_map_same: "(\<And>x. P x (f x)) \<Longrightarrow> list_all2 P xs (map f xs)"
  by (induction xs) simp_all

lemma scale_abs_whole:
  assumes "1 \<le> a" "a \<le> 3" "- 50 \<le> b" "b \<le> 50"
  shows "uint (scale_abs (of_int a) (of_int b) x) = min 255 \<bar>a * uint x + b\<bar>"
proof -
  define n where "n = uint x"
  have n: "0 \<le> n" "n \<le> 255"
    using uint_bounded [of x] by (simp_all add: n_def)
  have "n * a \<le> 255 * 3"
    using n assms by (intro mult_mono) simp_all
  moreover have "0 \<le> n * a"
    using n assms by simp
  ultimately have bound: "\<bar>n * a + b\<bar> \<le> 815"
    using assms by (simp add: abs_le_iff)
  have "scale_abs (of_int a) (of_int b) x = saturate_uchar \<bar>uint x * a + b\<bar>"
    by (rule scale_abs_of_int) (use assms bound in \<open>simp_all add: n_def [symmetric]\<close>)
  then show ?thesis
    by (simp add: uint_saturate_uchar clamp_int_def mult.commute)
qed

lemma scale_abs_near:
  assumes "1 \<le> alpha" "alpha \<le> 3" "- 50 \<le> beta" "beta \<le> 50"
  shows "\<bar>real_of_int (uint (scale_abs alpha beta x))
          - min 255 \<bar>alpha * real_of_int (uint x) + beta\<bar>\<bar> \<le> 1 / 2 + 1 / 1024"
proof -
  define n where "n = real_of_int (uint x)"
  define t where "t = alpha * n + beta"
  define w where "w = n * float32 alpha + float32 beta"
  define v where "v = float32 w"
  define r where "r = cvRound \<bar>v\<bar>"
  define k where "k = uint x"
  have k: "0 \<le> k" "k \<le> 255"
    using uint_bounded [of x] by (simp_all add: k_def)
  have nk: "n = real_of_int k" by (simp only: n_def k_def)
  have n: "0 \<le> n" "n \<le> 255"
    using k by (simp_all add: nk)
  have ea: "\<bar>float32 alpha - alpha\<bar> \<le> 3 / 2 ^ 24"
  proof -
    have "\<bar>float32 alpha - alpha\<bar> \<le> \<bar>alpha\<bar> / 2 ^ 24" by (rule float32_error)
    also have "\<dots> \<le> 3 / 2 ^ 24" using assms by (simp add: divide_right_mono)
    finally show ?thesis .
  qed
  have eb: "\<bar>float32 beta - beta\<bar> \<le> 50 / 2 ^ 24"
  proof -
    have "\<bar>float32 beta - beta\<bar> \<le> \<bar>beta\<bar> / 2 ^ 24" by (rule float32_error)
    also have "\<dots> \<le> 50 / 2 ^ 24" using assms by (simp add: divide_right_mono abs_le_iff)
    finally show ?thesis .
  qed
  have "n * \<bar>float32 alpha - alpha\<bar> \<le> 255 * (3 / 2 ^ 24)"
    using n ea by (intro mult_mono) simp_all
  moreover have "w - t = n * (float32 alpha - alpha) + (float32 beta - beta)"
    by (simp add: w_def t_def algebra_simps)
  moreover have "\<bar>n * (float32 alpha - alpha)\<bar> = n * \<bar>float32 alpha - alpha\<bar>"
    using n by (simp add: abs_mult)
  ultimately have wt: "\<bar>w - t\<bar> \<le> 815 / 2 ^ 24"
    using eb by linarith
  have "alpha * n \<le> 3 * 255"
    using assms n by (intro mult_mono) simp_all
  moreover have "0 \<le> alpha * n"
    using assms n by simp
  ultimately have t: "\<bar>t\<bar> \<le> 815"
    using assms by (simp add: t_def abs_le_iff)
  have small: "(815::real) / 2 ^ 24 \<le> 1" "(1631::real) / 2 ^ 24 \<le> 1 / 1024"
    by simp_all
  have wb: "\<bar>w\<bar> \<le> 816" using wt t small(1) by linarith
  have "\<bar>v - w\<bar> \<le> \<bar>w\<bar> / 2 ^ 24" unfolding v_def by (rule float32_error)
  also have "\<dots> \<le> 816 / 2 ^ 24" using wb by (simp add: divide_right_mono)
  finally have vw: "\<bar>v - w\<bar> \<le> 816 / 2 ^ 24" .
  have "(816::real) / 2 ^ 24 + 815 / 2 ^ 24 = 1631 / 2 ^ 24" by simp
  then have vt: "\<bar>\<bar>v\<bar> - \<bar>t\<bar>\<bar> \<le> 1 / 1024"
    using vw wt small(2) by linarith
  have rv: "\<bar>real_of_int r - \<bar>v\<bar>\<bar> \<le> 1 / 2"
    unfolding r_def by (rule cvRound_error)
  have "real_of_int 0 \<le> \<bar>v\<bar>" by simp
  then have r0: "0 \<le> r" unfolding r_def by (rule cvRound_lower)
  have out: "uint (scale_abs alpha beta x) = min 255 r"
    using r0
    by (simp add: scale_abs_def uint_saturate_uchar clamp_int_def r_def v_def w_def n_def)
  have "real_of_int (min 255 r) = min 255 (real_of_int r)" by simp
  moreover have "\<bar>min 255 (real_of_int r) - min 255 \<bar>t\<bar>\<bar> \<le> \<bar>real_of_int r - \<bar>t\<bar>\<bar>"
    by linarith
  moreover have "\<bar>real_of_int r - \<bar>t\<bar>\<bar> \<le> 1 / 2 + 1 / 1024"
    using rv vt by linarith
  ultimately have "\<bar>real_of_int (uint (scale_abs alpha beta x)) - min 255 \<bar>t\<bar>\<bar>
      \<le> 1 / 2 + 1 / 1024"
    by (simp only: out)
  then show ?thesis by (simp add: t_def n_def)
qed

text \<open>
  C1, amended: for \<open>alpha\<close> in \<open>[1.0, 3.0]\<close> and \<open>beta\<close> in \<open>[-50, 50]\<close> the
  output has the shape of the input, and every output channel value is a whole number
  within \<open>1/2 + 1/1024\<close> of \<open>min(255, |alpha * input + beta|)\<close>, which is
  \<open>clamp(alpha * input + beta, 0, 255)\<close> where \<open>alpha * input + beta\<close> is not
  negative. For whole numbers \<open>alpha\<close> and \<open>beta\<close> in these ranges the output is
  \<open>min(255, |alpha * input + beta|)\<close> itself.
\<close>

theorem linear_contrast_pixels:
  assumes "1 \<le> alpha" "alpha \<le> 3" "- 50 \<le> beta" "beta \<le> 50"
  shows "shape (linear_contrast img alpha beta) = shape img
    \<and> list_all2
         (\<lambda>x y. \<bar>real_of_int (uint y) - min 255 \<bar>alpha * real_of_int (uint x) + beta\<bar>\<bar>
                  \<le> 1 / 2 + 1 / 1024)
         (channel_values img) (channel_values (linear_contrast img alpha beta))
    \<and> (0 \<le> t \<longrightarrow> min 255 \<bar>t\<bar> = clamp t 0 255)
    \<and> (1 \<le> a \<longrightarrow> a \<le> 3 \<longrightarrow> - 50 \<le> b \<longrightarrow> b \<le> 50 \<longrightarrow>
         map uint (channel_values (linear_contrast img (of_int a) (of_int b))) =
         map (\<lambda>x. min 255 \<bar>a * uint x + b\<bar>) (channel_values img))"
proof -
  have s: "shape (linear_contrast img alpha beta) = shape img"
    by (simp add: linear_contrast_def convertScaleAbs_def shape_map_channels)
  have "channel_values (linear_contrast img alpha beta) =
        map (scale_abs alpha beta) (channel_values img)"
    by (simp add: linear_contrast_def convertScaleAbs_def channel_values_map_channels)
  moreover have "list_all2
         (\<lambda>x y. \<bar>real_of_int (uint y) - min 255 \<bar>alpha * real_of_int (uint x) + beta\<bar>\<bar>
                  \<le> 1 / 2 + 1 / 1024)
         (channel_values img) (map (scale_abs alpha beta) (channel_values img))"
    by (rule list_all2_map_same) (rule scale_abs_near [OF assms])
  ultimately have n: "list_all2
         (\<lambda>x y. \<bar>real_of_int (uint y) - min 255 \<bar>alpha * real_of_int (uint x) + beta\<bar>\<bar>
                  \<le> 1 / 2 + 1 / 1024)
         (channel_values img) (channel_values (linear_contrast img alpha beta))"
    by (simp only:)
  have c: "0 \<le> t \<longrightarrow> min 255 \<bar>t\<bar> = clamp t 0 255"
    by (simp add: clamp_def)
  have w: "1 \<le> a \<longrightarrow> a \<le> 3 \<longrightarrow> - 50 \<le> b \<longrightarrow> b \<le> 50 \<longrightarrow>
         map uint (channel_values (linear_contrast img (of_int a) (of_int b))) =
         map (\<lambda>x. min 255 \<bar>a * uint x + b\<bar>) (channel_values img)"
    by (simp add: linear_contrast_def convertScaleAbs_def channel_values_map_channels
        scale_abs_whole)
  show ?thesis
    by (intro conjI s n c w)
qed

theorem linear_contrast_pixels_witness:
  "channel_values (linear_contrast (Gray [[35, 15, 95]]) (11 / 10) (- 50)) = [11, 34, 55]
   \<and> list_all2
        (\<lambda>x y. \<bar>real_of_int (uint y) - min 255 \<bar>11 / 10 * real_of_int (uint x) + (- 50)\<bar>\<bar>
                 \<le> 1 / 2 + 1 / 1024)
        [35, 15, 95 :: uint8] [11, 34, 55 :: uint8]
   \<and> min 255 \<bar>109 / 2\<bar> = clamp (109 / 2) 0 255
   \<and> map uint (channel_values (linear_contrast (Gray [[35, 15, 95]]) 2 (- 50))) = [20, 20, 140]"
  using linear_contrast_pixels [of "11 / 10" "- 50" "Gray [[35, 15, 95]]" "109 / 2" 2 "- 50"]
  by (simp add: linear_contrast_single_precision)

subsection \<open>Line detection\<close>





















subsection \<open>The two image slots over a session\<close>












subsection \<open>HSV equalization, pixel by pixel\<close>

lemma zip3_map:
  "zip (map f xs) (zip (map g xs) (map h xs)) = map (\<lambda>x. (f x, g x, h x)) xs"
  by (induction xs) simp_all

lemma merge_planes_of:
  "merge (map (map f1) c, map (map f2) c, map (map f3) c) =
     Inr (Color (map (map (\<lambda>x. (f1 x, f2 x, f3 x))) c))"
proof -
  have "map (\<lambda>(rb, rg, rr). zip rb (zip rg rr))
          (zip (map (map f1) c) (zip (map (map f2) c) (map (map f3) c)))
        = map (map (\<lambda>x. (f1 x, f2 x, f3 x))) c"
    by (induction c) (simp_all add: zip3_map)
  then show ?thesis
    by (simp add: merge_def comp_def)
qed

lemma histogram_equalization_hsv_pixels:
  "histogram_equalization_hsv cv (Color c) =
     Inr (Color (map (map (\<lambda>px. case cv_bgr2hsv cv px of
                    (h, s, v) \<Rightarrow>
                      cv_hsv2bgr cv
                        (h, s, cv_equalize_lut cv
                                 (map (map (\<lambda>px. snd (snd (cv_bgr2hsv cv px)))) c) v))) c))"
proof -
  let ?hsv = "map (map (cv_bgr2hsv cv)) c"
  let ?vp = "map (map (\<lambda>px. snd (snd (cv_bgr2hsv cv px)))) c"
  let ?lut = "cv_equalize_lut cv ?vp"
  have h: "map (map (\<lambda>(b, g, r). b)) ?hsv = map (map (\<lambda>px. fst (cv_bgr2hsv cv px))) c"
    by (simp add: comp_def case_prod_unfold)
  have s: "map (map (\<lambda>(b, g, r). g)) ?hsv = map (map (\<lambda>px. fst (snd (cv_bgr2hsv cv px)))) c"
    by (simp add: comp_def case_prod_unfold)
  have v: "map (map (\<lambda>(b, g, r). r)) ?hsv = ?vp"
    by (simp add: comp_def case_prod_unfold)
  have veq: "equalizeHist cv ?vp = map (map (\<lambda>px. ?lut (snd (snd (cv_bgr2hsv cv px))))) c"
    by (simp add: equalizeHist_def comp_def)
  have "histogram_equalization_hsv cv (Color c) =
        (case merge (map (map (\<lambda>px. fst (cv_bgr2hsv cv px))) c,
                     map (map (\<lambda>px. fst (snd (cv_bgr2hsv cv px)))) c,
                     map (map (\<lambda>px. ?lut (snd (snd (cv_bgr2hsv cv px))))) c) of
           Inl e \<Rightarrow> Inl e
         | Inr hsv_eq \<Rightarrow> cvtColor cv hsv_eq COLOR_HSV2BGR)"
    unfolding histogram_equalization_hsv_def
    by (simp only: cvtColor.simps split.simps sum.case list.case Let_def h s v veq)
  then show ?thesis
    by (simp add: merge_planes_of comp_def case_prod_unfold)
qed

lemma cv_sample_fields:
  "cv_equalize_lut cv_sample = (\<lambda>p x. if p = [[30, 255]] \<and> x = 30 then 0 else x)"
  "cv_bgr2hsv cv_sample = (\<lambda>px. if px = (10, 20, 30) then (15, 170, 30)
                             else if px = (255, 255, 255) then (0, 0, 255)
                             else if px = (0, 0, 0) then (0, 0, 0) else px)"
  "cv_hsv2bgr cv_sample = (\<lambda>px. if px = (15, 170, 0) then (0, 0, 0)
                             else if px = (0, 0, 255) then (255, 255, 255) else px)"
  by (simp_all add: cv_sample_def)

lemma sample_to_hsv: "cvtColor cv_sample (Color sample) COLOR_BGR2HSV = Inr (Color [[(15, 170, 30), (0, 0, 255)]])"
  by (simp add: sample_def cv_sample_fields)

lemma sample_split: "split (Color [[(15, 170, 30), (0, 0, 255)]]) = [[[15, 0]], [[170, 0]], [[30, 255]]]"
  by simp

lemma sample_value_equalized: "equalizeHist cv_sample [[30, 255]] = [[0, 255]]"
  by (simp add: equalizeHist_def cv_sample_fields)

lemma sample_merged: "merge ([[15, 0]], [[170, 0]], [[0, 255]]) = Inr (Color [[(15, 170, 0), (0, 0, 255)]])"
  by (simp add: merge_def)

lemma sample_back: "cvtColor cv_sample (Color [[(15, 170, 0), (0, 0, 255)]]) COLOR_HSV2BGR = Inr (Color [[(0, 0, 0), (255, 255, 255)]])"
  by (simp add: cv_sample_fields)

lemma sample_equalized:
  "histogram_equalization_hsv cv_sample (Color sample) = Inr (Color [[(0, 0, 0), (255, 255, 255)]])"
  unfolding histogram_equalization_hsv_def sample_to_hsv
  by (simp add: sample_value_equalized sample_merged cv_sample_fields)

text \<open>
  C7, as stated, fails. On \<open>sample\<close> the value of the orange pixel, the smallest in
  the image, is equalized to 0; the pixel comes back black, and its hue and saturation,
  15 and 170 in the input, are 0 and 0 in the result: no tolerance below 170 holds.
\<close>

theorem hsv_equalization_loses_hue_saturation:
  "histogram_equalization_hsv cv_sample (Color sample) = Inr (Color [[(0, 0, 0), (255, 255, 255)]])
   \<and> hue_saturation cv_sample (Color sample) = [(15, 170), (0, 0)]
   \<and> hue_saturation cv_sample (Color [[(0, 0, 0), (255, 255, 255)]]) = [(0, 0), (0, 0)]
   \<and> \<not> hue_saturation_within cv_sample 169 (Color sample) (Color [[(0, 0, 0), (255, 255, 255)]])"
proof -
  have h1: "hue_saturation cv_sample (Color sample) = [(15, 170), (0, 0)]"
    unfolding hue_saturation_def sample_to_hsv by simp
  have h2: "hue_saturation cv_sample (Color [[(0, 0, 0), (255, 255, 255)]]) = [(0, 0), (0, 0)]"
    by (simp add: hue_saturation_def cv_sample_fields)
  have "\<not> hue_saturation_within cv_sample 169 (Color sample) (Color [[(0, 0, 0), (255, 255, 255)]])"
    unfolding hue_saturation_within_def h1 h2 by simp
  with sample_equalized h1 h2 show ?thesis by (intro conjI)
qed

text \<open>
  C7, amended: HSV histogram equalization changes only the value channel of the HSV
  image. On every colour image the result is the conversion back to BGR of the pixels
  \<open>equalized_pixel\<close>, which have the hue and the saturation of the converted input
  pixel and the value mapped through the lookup table of the value plane.
\<close>

theorem hsv_equalization_value_only:
  "histogram_equalization_hsv cv (Color c) =
     Inr (Color (map (map (\<lambda>px. cv_hsv2bgr cv (equalized_pixel cv c px))) c))
   \<and> fst (equalized_pixel cv c px) = fst (cv_bgr2hsv cv px)
   \<and> fst (snd (equalized_pixel cv c px)) = fst (snd (cv_bgr2hsv cv px))
   \<and> snd (snd (equalized_pixel cv c px)) =
       cv_equalize_lut cv (map (map (\<lambda>q. snd (snd (cv_bgr2hsv cv q)))) c)
         (snd (snd (cv_bgr2hsv cv px)))"
proof -
  have "(\<lambda>px. case cv_bgr2hsv cv px of
                    (h, s, v) \<Rightarrow>
                      cv_hsv2bgr cv
                        (h, s, cv_equalize_lut cv
                                 (map (map (\<lambda>px. snd (snd (cv_bgr2hsv cv px)))) c) v))
        = (\<lambda>px. cv_hsv2bgr cv (equalized_pixel cv c px))"
    by (rule ext) (simp add: equalized_pixel_def split: prod.split)
  then have "histogram_equalization_hsv cv (Color c) =
     Inr (Color (map (map (\<lambda>px. cv_hsv2bgr cv (equalized_pixel cv c px))) c))"
    by (simp only: histogram_equalization_hsv_pixels)
  then show ?thesis
    by (simp add: equalized_pixel_def split: prod.split)
qed

end
